theory Spec2Isabelle
  imports Main "HOL-Library.Word"
begin

section \<open>The adapter base class (adapters/adapter.py)\<close>

subsection \<open>Identifiers and their 8-byte form\<close>

text \<open>
  Object ids and transaction ids are Python integers; on the wire and inside a
  \<open>TimeStamp\<close> they are strings of 8 bytes, most significant byte first, so that the
  order of the byte strings is the order of the unsigned 64-bit values. An 8-byte string
  is modelled as a 64-bit word.
\<close>

type_synonym bytes8 = "64 word"

datatype error =
    StructError
  | ReadConflictError bytes8 "bytes8 \<times> bytes8"

text \<open>
  \<open>ZODB.utils.p64\<close>, imported as \<open>int64_to_8bytes\<close>: packs with format \<open>>Q\<close> and
  raises for an integer that is negative or does not fit 64 bits.
\<close>

definition int64_to_8bytes :: "int \<Rightarrow> error + bytes8" where
  "int64_to_8bytes v = (if 0 \<le> v \<and> v < 2 ^ 64 then Inr (word_of_int v) else Inl StructError)"

text \<open>\<open>ZODB.utils.u64\<close>, imported as \<open>bytes8_to_int64\<close>: the unsigned value of 8 bytes.\<close>

definition bytes8_to_int64 :: "bytes8 \<Rightarrow> int" where
  "bytes8_to_int64 b = uint b"

datatype TimeStamp = TimeStamp (raw: bytes8)

subsection \<open>The collaborators\<close>

text \<open>
  \<open>locker\<close>, \<open>txncontrol\<close> and \<open>mover\<close> are attributes that a concrete adapter fills in
  (they are \<open>None\<close> in \<open>AbstractAdapter\<close>). The database behind the cursor stands for
  them: the table of transactions, the current tid of every stored object, the conflicts
  the mover's query would report, whether the commit lock is held, and the calls made so
  far, in order.
\<close>

datatype call =
    HoldCommitLock
  | GetTid
  | AddTransaction int
  | LockCurrentObjects "int list"
  | CurrentObjectTids "int list"
  | DetectConflict

type_synonym conflict = "int \<times> int \<times> int"

record database =
  commit_lock_held :: bool
  transactions :: "(int \<times> string \<times> string \<times> string) list"
  object_tids :: "int \<rightharpoonup> int"
  pending_conflicts :: "conflict list"
  calls :: "call list"

definition called :: "call \<Rightarrow> database \<Rightarrow> database" where
  "called c db = db\<lparr>calls := calls db @ [c]\<rparr>"

text \<open>\<open>locker.hold_commit_lock(cursor, ensure_current=True)\<close>.\<close>

definition hold_commit_lock :: "database \<Rightarrow> database" where
  "hold_commit_lock db = called HoldCommitLock (db\<lparr>commit_lock_held := True\<rparr>)"

text \<open>\<open>txncontrol.get_tid(cursor)\<close>: the most recent tid, 0 for an empty table.\<close>

definition last_tid_of :: "database \<Rightarrow> int" where
  "last_tid_of db = fold max (map fst (transactions db)) 0"

definition get_tid :: "database \<Rightarrow> int \<times> database" where
  "get_tid db = (last_tid_of db, called GetTid db)"

text \<open>\<open>txncontrol.add_transaction(cursor, tid_int, username, description, extension)\<close>.\<close>

definition add_transaction ::
  "int \<Rightarrow> string \<Rightarrow> string \<Rightarrow> string \<Rightarrow> database \<Rightarrow> database" where
  "add_transaction tid username description extension db =
     called (AddTransaction tid)
       (db\<lparr>transactions := (tid, username, description, extension) # transactions db\<rparr>)"

text \<open>\<open>locker.lock_current_objects(cursor, oids)\<close>.\<close>

definition lock_current_objects :: "int list \<Rightarrow> database \<Rightarrow> database" where
  "lock_current_objects oids db = called (LockCurrentObjects oids) db"

text \<open>
  \<open>mover.current_object_tids(cursor, oids)\<close>: a dictionary from each of the oids that
  the database stores to its current tid.
\<close>

definition current_object_tids :: "int list \<Rightarrow> database \<Rightarrow> (int \<rightharpoonup> int) \<times> database" where
  "current_object_tids oids db =
     (object_tids db |` set oids, called (CurrentObjectTids oids) db)"

text \<open>\<open>mover.detect_conflict(cursor)\<close>.\<close>

definition detect_conflict :: "database \<Rightarrow> conflict list \<times> database" where
  "detect_conflict db = (pending_conflicts db, called DetectConflict db)"

subsection \<open>\<open>lock_database_and_choose_next_tid\<close>\<close>

text \<open>
  \<open>time.time()\<close> and \<open>timestamp_at_unixtime\<close> give the timestamp of the wall clock; it is
  the parameter \<open>stamp\<close>. \<open>TimeStamp.laterThan\<close> belongs to the \<open>persistent\<close> library
  and is the parameter \<open>laterThan\<close>, called as \<open>laterThan self other\<close>.
\<close>

definition lock_database_and_choose_next_tid ::
  "(TimeStamp \<Rightarrow> TimeStamp \<Rightarrow> TimeStamp) \<Rightarrow> TimeStamp \<Rightarrow>
   string \<Rightarrow> string \<Rightarrow> string \<Rightarrow> database \<Rightarrow> (error + int) \<times> database" where
  "lock_database_and_choose_next_tid laterThan stamp username description extension db =
     (let db1 = hold_commit_lock db;
          (last_tid, db2) = get_tid db1
      in case int64_to_8bytes last_tid of
           Inl e \<Rightarrow> (Inl e, db2)
         | Inr last_raw \<Rightarrow>
             (let stamp' = laterThan stamp (TimeStamp last_raw);
                  tid = raw stamp';
                  tid_int = bytes8_to_int64 tid
              in (Inr tid_int, add_transaction tid_int username description extension db2)))"

text \<open>
  What \<open>laterThan\<close> promises: a timestamp later than \<open>other\<close>, and \<open>self\<close> when that
  already is. No timestamp is later than the greatest one, eight bytes \<open>0xff\<close>.
\<close>

definition laterThan_contract :: "(TimeStamp \<Rightarrow> TimeStamp \<Rightarrow> TimeStamp) \<Rightarrow> bool" where
  "laterThan_contract laterThan =
     (\<forall>self other. raw other \<noteq> - 1 \<longrightarrow>
        raw other < raw (laterThan self other) \<and>
        (raw other < raw self \<longrightarrow> laterThan self other = self))"

text \<open>The least timestamp that keeps the promise, for running the method.\<close>

definition laterThan_next :: "TimeStamp \<Rightarrow> TimeStamp \<Rightarrow> TimeStamp" where
  "laterThan_next self other = (if raw other < raw self then self else TimeStamp (raw other + 1))"

subsection \<open>\<open>lock_objects_and_detect_conflicts\<close>\<close>

text \<open>
  The \<open>raise\<close> statement packs the oid and both tids before it builds the exception, so
  an integer that does not fit 8 bytes raises from the packing instead.
\<close>

definition raise_ReadConflictError :: "int \<Rightarrow> int \<Rightarrow> int \<Rightarrow> error" where
  "raise_ReadConflictError oid_int actual_tid_int expect_tid_int =
     (case int64_to_8bytes oid_int of
        Inl e \<Rightarrow> e
      | Inr oid \<Rightarrow>
          (case int64_to_8bytes actual_tid_int of
             Inl e \<Rightarrow> e
           | Inr actual \<Rightarrow>
               (case int64_to_8bytes expect_tid_int of
                  Inl e \<Rightarrow> e
                | Inr expect \<Rightarrow> ReadConflictError oid (actual, expect))))"

text \<open>\<open>current.get(oid_int, 0)\<close>.\<close>

definition get_or_0 :: "(int \<rightharpoonup> int) \<Rightarrow> int \<Rightarrow> int" where
  "get_or_0 current oid_int = (case current oid_int of None \<Rightarrow> 0 | Some t \<Rightarrow> t)"

text \<open>The loop over \<open>read_current_oids.items()\<close>; it stops at the first violation.\<close>

fun compare_read_current :: "(int \<rightharpoonup> int) \<Rightarrow> (int \<times> int) list \<Rightarrow> error option" where
  "compare_read_current current [] = None"
| "compare_read_current current ((oid_int, expect_tid_int) # rest) =
     (let actual_tid_int = get_or_0 current oid_int
      in if actual_tid_int \<noteq> expect_tid_int
         then Some (raise_ReadConflictError oid_int actual_tid_int expect_tid_int)
         else compare_read_current current rest)"

text \<open>
  \<open>read_current_oids\<close> is a dictionary from oid to the tid the caller read; it is given
  by its items, in iteration order.
\<close>

definition lock_objects_and_detect_conflicts ::
  "(int \<times> int) list \<Rightarrow> database \<Rightarrow> (error + conflict list) \<times> database" where
  "lock_objects_and_detect_conflicts read_current_oids db =
     (let read_current_oid_ints = map fst read_current_oids;
          db1 = lock_current_objects read_current_oid_ints db;
          (current, db2) = current_object_tids read_current_oid_ints db1
      in case compare_read_current current read_current_oids of
           Some e \<Rightarrow> (Inl e, db2)
         | None \<Rightarrow> (let (conflicts, db3) = detect_conflict db2 in (Inr conflicts, db3)))"

text \<open>Every oid and tid the method packs fits 8 bytes.\<close>

definition fits8 :: "int \<Rightarrow> bool" where
  "fits8 v = (0 \<le> v \<and> v < 2 ^ 64)"

definition ids_fit8 :: "(int \<times> int) list \<Rightarrow> database \<Rightarrow> bool" where
  "ids_fit8 read_current_oids db =
     (list_all (\<lambda>(oid_int, expect_tid_int). fits8 oid_int \<and> fits8 expect_tid_int
                  \<and> fits8 (get_or_0 (object_tids db) oid_int)) read_current_oids)"

definition violation :: "database \<Rightarrow> int \<times> int \<Rightarrow> bool" where
  "violation db = (\<lambda>(oid_int, expect_tid_int). get_or_0 (object_tids db) oid_int \<noteq> expect_tid_int)"

definition is_ReadConflictError :: "error + 'a \<Rightarrow> bool" where
  "is_ReadConflictError r = (case r of Inl (ReadConflictError oid serials) \<Rightarrow> True | _ \<Rightarrow> False)"

text \<open>Two databases to run the methods on.\<close>

definition example_db :: database where
  "example_db = \<lparr>commit_lock_held = False, transactions = [(5, ''u'', ''d'', ''e'')],
     object_tids = [1 \<mapsto> 5, 2 \<mapsto> 4], pending_conflicts = [(7, 3, 5)], calls = []\<rparr>"

(*DEFS-END*)

section \<open>Properties of the adapter base class\<close>

subsection \<open>Choosing the next transaction id\<close>

lemma word_less_succ: "(x::64 word) \<noteq> - 1 \<Longrightarrow> x < x + 1"
  using inc_less_eq_self_iff_eq [of x] by (simp add: not_le)

lemma laterThan_next_contract: "laterThan_contract laterThan_next"
  unfolding laterThan_contract_def laterThan_next_def
  by (auto simp: word_less_succ)

lemma last_tid_of_Max: "last_tid_of db = Max (insert 0 (fst ` set (transactions db)))"
proof -
  have "fold max xs (a::int) = Max (insert a (set xs))" for xs a
    using Max.set_eq_fold [of a xs] by simp
  then show ?thesis by (simp add: last_tid_of_def)
qed

lemma last_tid_of_add:
  "last_tid_of db \<le> tid \<Longrightarrow> last_tid_of (add_transaction tid u d e db) = tid"
proof -
  let ?S = "insert 0 (fst ` set (transactions db))"
  assume le: "last_tid_of db \<le> tid"
  have "last_tid_of (add_transaction tid u d e db) = Max (insert tid ?S)"
    by (simp add: last_tid_of_Max add_transaction_def called_def insert_commute)
  also have "\<dots> = max tid (Max ?S)" by (rule Max_insert) simp_all
  also have "\<dots> = tid" using le by (simp add: last_tid_of_Max)
  finally show ?thesis .
qed

lemma last_tid_of_called [simp]: "last_tid_of (called c db) = last_tid_of db"
  by (simp add: last_tid_of_def called_def)

lemma last_tid_of_hold [simp]: "last_tid_of (hold_commit_lock db) = last_tid_of db"
  by (simp add: last_tid_of_def called_def hold_commit_lock_def)

text \<open>
  One call: the last tid is packed, \<open>laterThan\<close> moves the clock's timestamp past it, and
  the unpacked result is both returned and stored as the newest transaction.
\<close>

lemma choose_step:
  assumes c: "laterThan_contract laterThan"
    and lo: "0 \<le> last_tid_of db" and hi: "last_tid_of db < 2 ^ 64 - 1"
  shows "\<exists>tid db'. lock_database_and_choose_next_tid laterThan stamp u d e db = (Inr tid, db')
           \<and> last_tid_of db < tid \<and> tid < 2 ^ 64 \<and> last_tid_of db' = tid
           \<and> transactions db' = (tid, u, d, e) # transactions db"
proof -
  let ?l = "last_tid_of db"
  let ?w = "word_of_int ?l :: 64 word"
  have p: "int64_to_8bytes ?l = Inr ?w" using lo hi by (simp add: int64_to_8bytes_def)
  have u: "uint ?w = ?l" using lo hi by (simp add: uint_word_of_int take_bit_int_eq_self)
  have "?w \<noteq> - 1"
  proof
    assume "?w = - 1"
    then have "uint ?w = uint (- 1 :: 64 word)" by simp
    then have "?l = 2 ^ 64 - 1"
      using u by (simp add: unsigned_minus_1_eq_mask mask_eq_exp_minus_1)
    with hi show False by simp
  qed
  then have nm: "raw (TimeStamp ?w) \<noteq> - 1" by simp
  from c have "raw (TimeStamp ?w) \<noteq> - 1 \<longrightarrow>
      raw (TimeStamp ?w) < raw (laterThan stamp (TimeStamp ?w))"
    unfolding laterThan_contract_def by blast
  with nm have lt: "?w < raw (laterThan stamp (TimeStamp ?w))" by simp
  let ?t = "uint (raw (laterThan stamp (TimeStamp ?w)))"
  have gt: "?l < ?t" using lt u by (simp add: word_less_def)
  have bound: "?t < 2 ^ 64"
    using uint_lt2p [of "raw (laterThan stamp (TimeStamp ?w))"] by simp
  have res: "lock_database_and_choose_next_tid laterThan stamp u d e db =
      (Inr ?t, add_transaction ?t u d e (called GetTid (hold_commit_lock db)))"
    by (simp add: lock_database_and_choose_next_tid_def get_tid_def p Let_def
        bytes8_to_int64_def)
  have "last_tid_of (add_transaction ?t u d e (called GetTid (hold_commit_lock db))) = ?t"
    using gt by (intro last_tid_of_add) simp
  moreover have "transactions (add_transaction ?t u d e (called GetTid (hold_commit_lock db)))
      = (?t, u, d, e) # transactions db"
    by (simp add: add_transaction_def called_def hold_commit_lock_def)
  ultimately show ?thesis using res gt bound by blast
qed

text \<open>
  Claim C9. Whatever the clock says, \<open>lock_database_and_choose_next_tid\<close> returns a tid
  strictly greater than the last tid of the database and stores the transaction under
  it, so a second call (at any other clock reading) returns a tid greater again. The
  last tid is an 8-byte value that has a successor, and \<open>laterThan\<close> keeps its promise.
\<close>

theorem choose_next_tid_increasing:
  assumes c: "laterThan_contract laterThan"
    and lo: "0 \<le> last_tid_of db" and hi: "last_tid_of db < 2 ^ 64 - 1"
  shows "\<exists>tid db'. lock_database_and_choose_next_tid laterThan stamp u d e db = (Inr tid, db')
           \<and> last_tid_of db < tid
           \<and> transactions db' = (tid, u, d, e) # transactions db
           \<and> (tid < 2 ^ 64 - 1 \<longrightarrow>
                (\<exists>tid2 db2. lock_database_and_choose_next_tid laterThan stamp2 u2 d2 e2 db'
                    = (Inr tid2, db2) \<and> tid < tid2))"
proof -
  from choose_step [OF c lo hi, of stamp u d e] obtain tid db' where
    r: "lock_database_and_choose_next_tid laterThan stamp u d e db = (Inr tid, db')"
    and g: "last_tid_of db < tid" and l: "last_tid_of db' = tid"
    and t: "transactions db' = (tid, u, d, e) # transactions db" by blast
  have "\<exists>tid2 db2. lock_database_and_choose_next_tid laterThan stamp2 u2 d2 e2 db'
                    = (Inr tid2, db2) \<and> tid < tid2" if "tid < 2 ^ 64 - 1"
  proof -
    have "0 \<le> last_tid_of db'" using l g lo by simp
    moreover have "last_tid_of db' < 2 ^ 64 - 1" using l that by simp
    ultimately show ?thesis using choose_step [OF c, of db' stamp2 u2 d2 e2] l by blast
  qed
  with r g t show ?thesis by blast
qed

text \<open>
  With 5 as the last tid, a clock that is behind (timestamp 3) gives tid 6 and a clock
  that is ahead (timestamp 9) gives its own timestamp.
\<close>

theorem choose_next_tid_increasing_witness:
  "laterThan_contract laterThan_next \<and> 0 \<le> last_tid_of example_db
   \<and> last_tid_of example_db < 2 ^ 64 - 1
   \<and> fst (lock_database_and_choose_next_tid laterThan_next (TimeStamp 3)
            ''user'' ''desc'' ''ext'' example_db) = Inr 6
   \<and> fst (lock_database_and_choose_next_tid laterThan_next (TimeStamp 9)
            ''user'' ''desc'' ''ext'' example_db) = Inr 9"
proof -
  have lo: "0 \<le> last_tid_of example_db" and hi: "last_tid_of example_db < 2 ^ 64 - 1"
    by (simp_all add: last_tid_of_def example_db_def)
  show ?thesis
    using choose_next_tid_increasing [OF laterThan_next_contract lo hi, of "TimeStamp 3"]
    by (simp add: laterThan_next_contract lock_database_and_choose_next_tid_def
        hold_commit_lock_def called_def get_tid_def last_tid_of_def int64_to_8bytes_def
        laterThan_next_def bytes8_to_int64_def add_transaction_def example_db_def)
qed

subsection \<open>Read-current checks before conflict detection\<close>

lemma get_or_0_restrict: "oid \<in> S \<Longrightarrow> get_or_0 (m |` S) oid = get_or_0 m oid"
  by (simp add: get_or_0_def)

lemma raise_fits:
  "fits8 a \<Longrightarrow> fits8 b \<Longrightarrow> fits8 c \<Longrightarrow>
   raise_ReadConflictError a b c = ReadConflictError (word_of_int a) (word_of_int b, word_of_int c)"
  by (simp add: raise_ReadConflictError_def int64_to_8bytes_def fits8_def)

lemma compare_no_violation:
  "\<not> list_ex (\<lambda>(oid, expect). get_or_0 current oid \<noteq> expect) items \<Longrightarrow>
   compare_read_current current items = None"
  by (induction items) (auto simp: Let_def)

lemma compare_violation:
  "list_ex (\<lambda>(oid, expect). get_or_0 current oid \<noteq> expect) items \<Longrightarrow>
   list_all (\<lambda>(oid, expect). fits8 oid \<and> fits8 expect \<and> fits8 (get_or_0 current oid)) items \<Longrightarrow>
   \<exists>oid serials. compare_read_current current items = Some (ReadConflictError oid serials)"
  by (induction items) (auto simp: Let_def raise_fits)

lemma restrict_items:
  "list_ex (\<lambda>(oid, expect). get_or_0 (m |` set (map fst items)) oid \<noteq> expect) items
   = list_ex (\<lambda>(oid, expect). get_or_0 m oid \<noteq> expect) items"
  by (rule list_ex_cong) (auto simp: get_or_0_restrict rev_image_eqI)

lemma restrict_fit:
  "list_all (\<lambda>(oid, expect). fits8 oid \<and> fits8 expect
       \<and> fits8 (get_or_0 (m |` set (map fst items)) oid)) items
   = list_all (\<lambda>(oid, expect). fits8 oid \<and> fits8 expect \<and> fits8 (get_or_0 m oid)) items"
  by (rule list_all_cong) (auto simp: get_or_0_restrict rev_image_eqI)

text \<open>
  Claim C10. \<open>lock_objects_and_detect_conflicts\<close> raises \<open>ReadConflictError\<close> exactly
  when some oid of \<open>read_current_oids\<close> has a current tid in the database (0 for an oid
  the database does not store) other than the tid the caller expects. When it raises,
  the calls made are the object lock and the tid query only, so \<open>detect_conflict\<close> was
  not executed; otherwise \<open>detect_conflict\<close> runs last and its conflicts are returned.
  The oids and tids are 8-byte values.
\<close>

theorem read_conflict_iff_violation:
  assumes fit: "ids_fit8 read_current_oids db"
  shows "(is_ReadConflictError (fst (lock_objects_and_detect_conflicts read_current_oids db))
            \<longleftrightarrow> list_ex (violation db) read_current_oids)
       \<and> (list_ex (violation db) read_current_oids \<longrightarrow>
            calls (snd (lock_objects_and_detect_conflicts read_current_oids db)) =
              calls db @ [LockCurrentObjects (map fst read_current_oids),
                          CurrentObjectTids (map fst read_current_oids)])
       \<and> (\<not> list_ex (violation db) read_current_oids \<longrightarrow>
            fst (lock_objects_and_detect_conflicts read_current_oids db)
              = Inr (pending_conflicts db)
            \<and> calls (snd (lock_objects_and_detect_conflicts read_current_oids db)) =
              calls db @ [LockCurrentObjects (map fst read_current_oids),
                          CurrentObjectTids (map fst read_current_oids), DetectConflict])"
proof (cases "list_ex (violation db) read_current_oids")
  case True
  let ?cur = "object_tids db |` set (map fst read_current_oids)"
  have "list_ex (\<lambda>(oid, expect). get_or_0 ?cur oid \<noteq> expect) read_current_oids"
    using True unfolding violation_def restrict_items .
  moreover have "list_all (\<lambda>(oid, expect). fits8 oid \<and> fits8 expect
      \<and> fits8 (get_or_0 ?cur oid)) read_current_oids"
    using fit unfolding ids_fit8_def restrict_fit .
  ultimately obtain oid serials where
    "compare_read_current ?cur read_current_oids = Some (ReadConflictError oid serials)"
    using compare_violation by blast
  then have "lock_objects_and_detect_conflicts read_current_oids db =
      (Inl (ReadConflictError oid serials),
       called (CurrentObjectTids (map fst read_current_oids))
         (called (LockCurrentObjects (map fst read_current_oids)) db))"
    by (simp add: lock_objects_and_detect_conflicts_def current_object_tids_def
        lock_current_objects_def called_def Let_def)
  with True show ?thesis by (simp add: is_ReadConflictError_def called_def)
next
  case False
  let ?cur = "object_tids db |` set (map fst read_current_oids)"
  have "\<not> list_ex (\<lambda>(oid, expect). get_or_0 ?cur oid \<noteq> expect) read_current_oids"
    using False unfolding violation_def restrict_items .
  then have "compare_read_current ?cur read_current_oids = None"
    by (rule compare_no_violation)
  then have "lock_objects_and_detect_conflicts read_current_oids db =
      (Inr (pending_conflicts db),
       called DetectConflict (called (CurrentObjectTids (map fst read_current_oids))
         (called (LockCurrentObjects (map fst read_current_oids)) db)))"
    by (simp add: lock_objects_and_detect_conflicts_def current_object_tids_def
        lock_current_objects_def detect_conflict_def called_def Let_def)
  with False show ?thesis by (simp add: is_ReadConflictError_def called_def)
qed

text \<open>
  The example database stores oid 1 at tid 5 and oid 2 at tid 4, and not oid 9. A caller
  that read oid 2 at tid 3 gets the error with both tids and no conflict query; a caller
  whose reads are all current gets the pending conflicts.
\<close>

theorem read_conflict_iff_violation_witness:
  "ids_fit8 [(1, 5), (2, 3), (9, 0)] example_db
   \<and> lock_objects_and_detect_conflicts [(1, 5), (2, 3), (9, 0)] example_db
       = (Inl (ReadConflictError 2 (4, 3)),
          example_db\<lparr>calls := [LockCurrentObjects [1, 2, 9], CurrentObjectTids [1, 2, 9]]\<rparr>)
   \<and> ids_fit8 [(1, 5), (2, 4), (9, 0)] example_db
   \<and> lock_objects_and_detect_conflicts [(1, 5), (2, 4), (9, 0)] example_db
       = (Inr [(7, 3, 5)],
          example_db\<lparr>calls := [LockCurrentObjects [1, 2, 9], CurrentObjectTids [1, 2, 9],
                                DetectConflict]\<rparr>)"
proof -
  have f1: "ids_fit8 [(1, 5), (2, 3), (9, 0)] example_db"
    and f2: "ids_fit8 [(1, 5), (2, 4), (9, 0)] example_db"
    by (simp_all add: ids_fit8_def example_db_def fits8_def get_or_0_def)
  show ?thesis
    using read_conflict_iff_violation [OF f1] read_conflict_iff_violation [OF f2] f1 f2
    by (simp add: lock_objects_and_detect_conflicts_def current_object_tids_def
        lock_current_objects_def detect_conflict_def called_def Let_def example_db_def
        get_or_0_def raise_ReadConflictError_def int64_to_8bytes_def violation_def)
qed

end
